theory Spec2Isabelle
  imports Main "HOL-Library.Mapping" "HOL-Library.AList_Mapping" "HOL-Library.Monad_Syntax"
begin

section \<open>Python text operations used by the translator and the extractor\<close>

text \<open>
  An expression is a Python \<^verbatim>\<open>str\<close>. It is modelled as a \<^typ>\<open>string\<close>: ASCII
  characters stand for themselves; the only non-ASCII text the code itself produces, the
  arrow U+2192 between path parts, is written as its three UTF-8 bytes. Character
  classes (white space, digits, letters) are the ASCII ones: a byte above 127 is in none
  of them.

  A Python operation that can raise (an index out of range, a tuple unpacking of the wrong
  length) yields an \<^typ>\<open>'a option\<close>, with \<^term>\<open>None\<close> for the exception.
\<close>

definition arrow :: string where
  "arrow = [CHR 0x20, CHR 0xE2, CHR 0x86, CHR 0x92, CHR 0x20]"

text \<open>\<^verbatim>\<open>xs[i]\<close> for a constant index \<open>i \<ge> 0\<close>: IndexError when out of range.\<close>

definition py_index :: "'a list \<Rightarrow> nat \<Rightarrow> 'a option" where
  "py_index xs i = (if i < length xs then Some (xs ! i) else None)"

text \<open>\<^verbatim>\<open>a, b = xs\<close>: ValueError unless \<open>xs\<close> has exactly two items.\<close>

fun unpack2 :: "'a list \<Rightarrow> ('a \<times> 'a) option" where
  "unpack2 [a, b] = Some (a, b)"
| "unpack2 _ = None"

text \<open>\<^verbatim>\<open>s.startswith(p)\<close>, \<^verbatim>\<open>s.endswith(p)\<close> and \<^verbatim>\<open>sub in s\<close>.\<close>

definition startswith :: "string \<Rightarrow> string \<Rightarrow> bool" where
  "startswith s p = (take (length p) s = p)"

definition endswith :: "string \<Rightarrow> string \<Rightarrow> bool" where
  "endswith s p = (length p \<le> length s \<and> drop (length s - length p) s = p)"

fun isin :: "string \<Rightarrow> string \<Rightarrow> bool" where
  "isin sub [] = (sub = [])"
| "isin sub (c # cs) = (startswith (c # cs) sub \<or> isin sub cs)"

text \<open>\<^verbatim>\<open>s.find(sub)\<close>: the index of the leftmost occurrence, \<^term>\<open>None\<close> for Python's -1.\<close>

fun find_str :: "string \<Rightarrow> string \<Rightarrow> nat option" where
  "find_str sub [] = (if sub = [] then Some 0 else None)"
| "find_str sub (c # cs) =
     (if startswith (c # cs) sub then Some 0 else map_option Suc (find_str sub cs))"

lemma find_str_bound:
  "find_str sub s = Some i \<Longrightarrow> i + length sub \<le> length s"
proof (induction s arbitrary: i)
  case Nil
  then show ?case by (simp split: if_splits)
next
  case (Cons c cs)
  show ?case
  proof (cases "startswith (c # cs) sub")
    case True
    then have "length (take (length sub) (c # cs)) = length sub"
      unfolding startswith_def by simp
    then have "length sub \<le> length (c # cs)"
      by simp
    with True Cons.prems show ?thesis by simp
  next
    case False
    with Cons.prems obtain j where "find_str sub cs = Some j" "i = Suc j"
      by auto
    with Cons.IH show ?thesis by simp
  qed
qed

text \<open>
  \<^verbatim>\<open>s.split(sep, maxsplit)\<close> for a separator: the text is cut at the leftmost occurrences
  of \<open>sep\<close>, at most \<open>maxsplit\<close> of them (\<^term>\<open>None\<close> is Python's default, no limit).
  Python raises ValueError for an empty separator; every call in the source passes a
  non-empty one, and the model then returns the text uncut.
\<close>

function split :: "string \<Rightarrow> nat option \<Rightarrow> string \<Rightarrow> string list" where
  "split sep maxsplit s =
     (if sep = [] \<or> maxsplit = Some 0 then [s]
      else case find_str sep s of
             None \<Rightarrow> [s]
           | Some i \<Rightarrow> take i s # split sep (map_option (\<lambda>k. k - 1) maxsplit)
                                      (drop (i + length sep) s))"
  by pat_completeness auto
termination
proof (relation "measure (\<lambda>(sep, maxsplit, s). length s)")
  show "wf (measure (\<lambda>(sep, maxsplit, s). length s))" by simp
next
  fix sep :: string and maxsplit :: "nat option" and s :: string and i :: nat
  assume ne: "\<not> (sep = [] \<or> maxsplit = Some 0)" and f: "find_str sep s = Some i"
  from find_str_bound [OF f] ne have "0 < length sep" "i + length sep \<le> length s"
    by auto
  then have "length (drop (i + length sep) s) < length s"
    by (simp del: length_greater_0_conv)
  then show "((sep, map_option (\<lambda>k. k - 1) maxsplit, drop (i + length sep) s),
              (sep, maxsplit, s)) \<in> measure (\<lambda>(sep, maxsplit, s). length s)"
    by simp
qed

declare split.simps [simp del]

text \<open>\<^verbatim>\<open>sep.join(xs)\<close>.\<close>

fun join :: "string \<Rightarrow> string list \<Rightarrow> string" where
  "join sep [] = []"
| "join sep [x] = x"
| "join sep (x # y # ys) = x @ sep @ join sep (y # ys)"

text \<open>Character classes, and \<^verbatim>\<open>s.lower()\<close>, \<^verbatim>\<open>s.capitalize()\<close>, \<^verbatim>\<open>s.isdigit()\<close>.\<close>

definition is_space :: "char \<Rightarrow> bool" where
  "is_space c = (c \<in> set [CHR 0x09, CHR 0x0A, CHR 0x0B, CHR 0x0C, CHR 0x0D,
                          CHR 0x1C, CHR 0x1D, CHR 0x1E, CHR 0x1F, CHR 0x20])"

definition is_lower :: "char \<Rightarrow> bool" where
  "is_lower c = (c \<in> set ''abcdefghijklmnopqrstuvwxyz'')"

definition is_upper :: "char \<Rightarrow> bool" where
  "is_upper c = (c \<in> set ''ABCDEFGHIJKLMNOPQRSTUVWXYZ'')"

definition is_digit :: "char \<Rightarrow> bool" where
  "is_digit c = (c \<in> set ''0123456789'')"

definition lower_char :: "char \<Rightarrow> char" where
  "lower_char c =
     (case map_of (zip ''ABCDEFGHIJKLMNOPQRSTUVWXYZ'' ''abcdefghijklmnopqrstuvwxyz'') c of
        Some l \<Rightarrow> l
      | None \<Rightarrow> c)"

definition upper_char :: "char \<Rightarrow> char" where
  "upper_char c =
     (case map_of (zip ''abcdefghijklmnopqrstuvwxyz'' ''ABCDEFGHIJKLMNOPQRSTUVWXYZ'') c of
        Some u \<Rightarrow> u
      | None \<Rightarrow> c)"

definition lower :: "string \<Rightarrow> string" where
  "lower s = map lower_char s"

fun capitalize :: "string \<Rightarrow> string" where
  "capitalize [] = []"
| "capitalize (c # cs) = upper_char c # lower cs"

definition isdigit :: "string \<Rightarrow> bool" where
  "isdigit s = (s \<noteq> [] \<and> list_all is_digit s)"

text \<open>
  \<^verbatim>\<open>s.strip()\<close> removes white space at both ends; \<^verbatim>\<open>s.strip(chars)\<close>,
  \<^verbatim>\<open>s.lstrip(chars)\<close> and \<^verbatim>\<open>s.rstrip(chars)\<close> remove the characters of \<open>chars\<close>.
\<close>

definition lstrip_chars :: "string \<Rightarrow> string \<Rightarrow> string" where
  "lstrip_chars chars s = dropWhile (\<lambda>c. c \<in> set chars) s"

definition rstrip_chars :: "string \<Rightarrow> string \<Rightarrow> string" where
  "rstrip_chars chars s = rev (dropWhile (\<lambda>c. c \<in> set chars) (rev s))"

definition strip_chars :: "string \<Rightarrow> string \<Rightarrow> string" where
  "strip_chars chars s = rstrip_chars chars (lstrip_chars chars s)"

definition strip :: "string \<Rightarrow> string" where
  "strip s = rev (dropWhile is_space (rev (dropWhile is_space s)))"

text \<open>\<^verbatim>\<open>s.replace(c, new)\<close> for a one-character \<open>c\<close>, and \<^verbatim>\<open>s.count(c)\<close>.\<close>

definition replace :: "char \<Rightarrow> string \<Rightarrow> string \<Rightarrow> string" where
  "replace c new s = concat (map (\<lambda>x. if x = c then new else [x]) s)"

definition count :: "char \<Rightarrow> string \<Rightarrow> nat" where
  "count c s = length (filter (\<lambda>x. x = c) s)"

text \<open>
  \<^verbatim>\<open>re.sub(r'([a-z])([A-Z])', r'\1 \2', name)\<close>: scanning from the left, each lower-case
  letter directly followed by an upper-case one gets a blank between them, and the scan
  goes on after the upper-case letter.
\<close>

fun camel_sub :: "string \<Rightarrow> string" where
  "camel_sub (a # b # cs) =
     (if is_lower a \<and> is_upper b then a # CHR '' '' # b # camel_sub cs
      else a # camel_sub (b # cs))"
| "camel_sub cs = cs"

section \<open>The translator: name humanization\<close>

definition humanize_name :: "string \<Rightarrow> string option" where
  "humanize_name name =
     do {
       name1 \<leftarrow> (if isin '':'' name then py_index (split '':'' (Some 1) name) 1
                 else Some name);
       let name2 = camel_sub name1;
       let name3 = replace CHR ''_'' '' '' name2;
       let name4 = replace CHR ''-'' '' '' name3;
       let name5 = strip (lower name4);
       Some (if name5 \<noteq> [] then name5 else ''unknown'')
     }"

text \<open>
  \<^verbatim>\<open>re.search(f'{func_name}\\(([^)]+)\\)', xpath)\<close>: the leftmost place where the name
  is followed by an opening parenthesis, at least one character other than a closing
  parenthesis (as many as there are), and a closing parenthesis. The result is the
  text between the parentheses, group 1 of the match.
\<close>

definition match_call :: "string \<Rightarrow> string \<Rightarrow> string option" where
  "match_call func_name s =
     (if startswith s (func_name @ ''('') then
        (let rest = drop (length func_name + 1) s;
             args = takeWhile (\<lambda>c. c \<noteq> CHR '')'') rest;
             after = dropWhile (\<lambda>c. c \<noteq> CHR '')'') rest
         in if args \<noteq> [] \<and> after \<noteq> [] then Some args else None)
      else None)"

fun re_search_call :: "string \<Rightarrow> string \<Rightarrow> string option" where
  "re_search_call func_name [] = match_call func_name []"
| "re_search_call func_name (c # cs) =
     (case match_call func_name (c # cs) of
        Some args \<Rightarrow> Some args
      | None \<Rightarrow> re_search_call func_name cs)"

text \<open>
  \<^verbatim>\<open>re.split(r'\s+and\s+', xpath, flags=re.IGNORECASE)\<close>, and the same for \<^verbatim>\<open>or\<close>.
  \<open>match_ws_word w s\<close> matches white space, the word \<open>w\<close> in any letter case and white
  space again at the start of \<open>s\<close>, each run of white space as long as possible, and
  returns the text after the match. \<open>re_split\<close> cuts the text at the matches found
  from left to right.
\<close>

definition match_ws_word :: "string \<Rightarrow> string \<Rightarrow> string option" where
  "match_ws_word w s =
     (let s1 = dropWhile is_space s in
      if takeWhile is_space s = [] then None
      else if lower (take (length w) s1) = w then
        (let s2 = drop (length w) s1 in
         if takeWhile is_space s2 = [] then None else Some (dropWhile is_space s2))
      else None)"

lemma match_ws_word_shorter:
  assumes "match_ws_word w s = Some r"
  shows "length r < length s"
proof -
  from assms have ws: "takeWhile is_space s \<noteq> []"
    and r: "r = dropWhile is_space (drop (length w) (dropWhile is_space s))"
    by (auto simp: match_ws_word_def Let_def split: if_splits)
  have "length s = length (takeWhile is_space s) + length (dropWhile is_space s)"
    by (metis length_append takeWhile_dropWhile_id)
  with ws have "length (dropWhile is_space s) < length s"
    by simp
  moreover have "length r \<le> length (dropWhile is_space s)"
    unfolding r
    by (rule order_trans [OF length_dropWhile_le]) simp
  ultimately show ?thesis by simp
qed

function re_split_go :: "string \<Rightarrow> string \<Rightarrow> string \<Rightarrow> string list" where
  "re_split_go w piece [] = [piece]"
| "re_split_go w piece (c # cs) =
     (case match_ws_word w (c # cs) of
        Some rest \<Rightarrow> piece # re_split_go w [] rest
      | None \<Rightarrow> re_split_go w (piece @ [c]) cs)"
  by pat_completeness auto
termination
proof (relation "measure (\<lambda>(w, piece, s). length s)")
  show "wf (measure (\<lambda>(w, piece, s). length s))" by simp
next
  fix w piece :: string and c :: char and cs rest :: string
  assume "match_ws_word w (c # cs) = Some rest"
  from match_ws_word_shorter [OF this]
  show "((w, [], rest), (w, piece, c # cs)) \<in> measure (\<lambda>(w, piece, s). length s)"
    by simp
next
  fix w piece :: string and c :: char and cs :: string
  show "((w, piece @ [c], cs), (w, piece, c # cs)) \<in> measure (\<lambda>(w, piece, s). length s)"
    by simp
qed

definition re_split :: "string \<Rightarrow> string \<Rightarrow> string list" where
  "re_split w s = re_split_go w [] s"

text \<open>\<^verbatim>\<open>str(i)\<close> for the step numbers.\<close>

fun str_nat :: "nat \<Rightarrow> string" where
  "str_nat n =
     (if n < 10 then [''0123456789'' ! n]
      else str_nat (n div 10) @ [''0123456789'' ! (n mod 10)])"

declare str_nat.simps [simp del]

section \<open>Dicts\<close>

text \<open>
  A context is a Python dict from keys to arbitrary values. The values are modelled by
  \<open>pyval\<close>; \<^verbatim>\<open>d.get(k, default)\<close> is \<open>dict_get\<close>.
\<close>

datatype pyval = PyNone | PyBool bool | PyInt int | PyStr string

type_synonym dict = "(string, pyval) mapping"

definition dict_get :: "dict \<Rightarrow> string \<Rightarrow> pyval \<Rightarrow> pyval" where
  "dict_get d k dflt = (case Mapping.lookup d k of None \<Rightarrow> dflt | Some v \<Rightarrow> v)"

section \<open>The extractor\<close>

text \<open>
  An \<^verbatim>\<open>xml.etree.ElementTree.Element\<close>: its tag, its attributes, the text before its
  first child (\<^term>\<open>None\<close> when there is none) and its children in document order.
  The text after an element, which the extractor never reads, is left out.
  \<^verbatim>\<open>elem.get(k, default)\<close> is \<open>elem_get\<close>.
\<close>

datatype element =
  Element (tag: string) (attrib: "(string \<times> string) list") (elem_text: "string option")
          (children: "element list")








text \<open>
  An entry of the list \<^verbatim>\<open>_extract_xpaths\<close> returns. \<^verbatim>\<open>str(uuid.uuid4())\<close> draws a
  fresh identifier: the identifiers are numbered, and the number of the next one is
  passed along with the list.
\<close>

record xpath_record =
  xp_id :: nat
  expression :: string
  location :: string
  activity :: string
  xp_context :: dict








record process_variable =
  name :: string
  var_type :: string

record metadata =
  process_name :: string
  description :: string
  variables :: "process_variable list"
  schemas :: "pyval list"



text \<open>
  \<^verbatim>\<open>parse_file\<close>. \<^verbatim>\<open>ET.parse\<close> belongs to the Python library: it is a parameter, a
  function from the file path to the root element or to the exception it raises. The
  \<^verbatim>\<open>try\<close> block catches \<^verbatim>\<open>ET.ParseError\<close> only, and raises a \<^verbatim>\<open>ValueError\<close> built from
  the parse error's message; any other exception of \<^verbatim>\<open>ET.parse\<close> passes through.
\<close>

datatype exn = ParseError string | ValueError string | OSError string



section \<open>The translator\<close>

text \<open>
  The two tables of \<^verbatim>\<open>XPathTranslator.__init__\<close>. A Python dict keeps its insertion
  order and the loops over \<^verbatim>\<open>items()\<close> and \<^verbatim>\<open>keys()\<close> follow it, so each table is a
  list of pairs.
\<close>

definition operators :: "(string \<times> string) list" where
  "operators =
     [(''='', ''equals''),
      (''!='', ''does not equal''),
      (''>'', ''is greater than''),
      (''>='', ''is greater than or equal to''),
      (''<'', ''is less than''),
      (''<='', ''is less than or equal to''),
      (''and'', ''AND''),
      (''or'', ''OR''),
      (''not'', ''NOT'')]"

definition functions_table :: "(string \<times> string) list" where
  "functions_table =
     [(''count'', ''count the number of''),
      (''sum'', ''calculate the sum of''),
      (''concat'', ''combine''),
      (''substring'', ''extract part of''),
      (''string'', ''convert to text''),
      (''number'', ''convert to number''),
      (''boolean'', ''convert to true/false''),
      (''contains'', ''contains''),
      (''starts-with'', ''starts with''),
      (''string-length'', ''get the length of''),
      (''normalize-space'', ''remove extra spaces from''),
      (''translate'', ''replace characters in''),
      (''upper-case'', ''convert to uppercase''),
      (''lower-case'', ''convert to lowercase'')]"

text \<open>
  The renderers below receive the context mapping as the source's methods do; none of
  them reads or writes it.
\<close>

definition determine_type :: "string \<Rightarrow> string" where
  "determine_type xpath =
     (if startswith xpath ''$'' then ''variable''
      else if list_ex (\<lambda>op. isin op xpath) [''='', ''!='', ''>'', ''<'', '' and '', '' or '']
        then ''condition''
      else if list_ex (\<lambda>func. isin (func @ ''('') xpath) (map fst functions_table)
        then ''function''
      else ''selection'')"

definition quote_chars :: string where
  "quote_chars = [CHR 0x27, CHR 0x22]"

definition translate_operand :: "string \<Rightarrow> string option" where
  "translate_operand operand0 =
     (let operand = strip operand0 in
      if (startswith operand [CHR 0x27] \<and> endswith operand [CHR 0x27]) \<or>
         (startswith operand [CHR 0x22] \<and> endswith operand [CHR 0x22])
        then Some (strip_chars quote_chars operand)
      else if isdigit (replace CHR ''.'' [] operand) then Some operand
      else if startswith operand ''$'' then Some (''variable '' @ drop 1 operand)
      else humanize_name operand)"

text \<open>
  The first loop of \<^verbatim>\<open>_translate_condition\<close>, over the operator table. The outer
  \<^term>\<open>None\<close> is an exception; \<open>Some None\<close> is the loop running to its end without a
  \<^verbatim>\<open>return\<close>; \<open>Some (Some d)\<close> is \<^verbatim>\<open>return d\<close>.
\<close>

fun condition_loop :: "(string \<times> string) list \<Rightarrow> string \<Rightarrow> string option option" where
  "condition_loop [] xpath = Some None"
| "condition_loop ((op, op_text) # ops) xpath =
     (if isin op xpath then
        (case split op (Some 1) xpath of
           [l, r] \<Rightarrow>
             do {
               left \<leftarrow> translate_operand (strip l);
               right \<leftarrow> translate_operand (strip r);
               Some (Some (''Check if '' @ left @ '' '' @ op_text @ '' '' @ right))
             }
         | _ \<Rightarrow> condition_loop ops xpath)
      else condition_loop ops xpath)"

lemma strip_length: "length (strip s) \<le> length s"
proof -
  have "length (strip s) \<le> length (dropWhile is_space s)"
    unfolding strip_def by (metis length_dropWhile_le length_rev)
  also have "\<dots> \<le> length s"
    by (rule length_dropWhile_le)
  finally show ?thesis .
qed

lemma re_split_go_length:
  "p \<in> set (re_split_go w piece s) \<Longrightarrow> length p \<le> length piece + length s"
proof (induction w piece s rule: re_split_go.induct)
  case (1 w piece)
  then show ?case by simp
next
  case (2 w piece c cs)
  show ?case
  proof (cases "match_ws_word w (c # cs)")
    case None
    with 2 show ?thesis by simp
  next
    case (Some rest)
    with 2 match_ws_word_shorter [OF Some] show ?thesis by fastforce
  qed
qed

lemma lower_char_space: "is_space (lower_char c) = is_space c"
  by (simp add: lower_char_def is_space_def)

lemma match_ws_word_at:
  assumes sw: "startswith (lower s) ('' '' @ w @ '' '')"
    and w: "w \<noteq> []" "\<not> is_space (hd w)"
  shows "match_ws_word w s \<noteq> None"
proof -
  from sw have "map lower_char s = CHR '' '' # w @ CHR '' '' # drop (length w + 2) (lower s)"
    unfolding startswith_def lower_def
    by (metis (no_types, lifting) One_nat_def Suc_eq_plus1 add_Suc_right append_Cons
        append_Nil append_take_drop_id length_Cons length_append list.size(3)
        numeral_2_eq_2 append_assoc)
  then obtain c0 sw c4 st where s: "s = c0 # sw @ c4 # st"
    and c0: "lower_char c0 = CHR '' ''" and sw': "map lower_char sw = w"
    and c4: "lower_char c4 = CHR '' ''"
    by (auto simp: map_eq_Cons_conv map_eq_append_conv)
  have sp: "is_space (CHR '' '')" by (simp add: is_space_def)
  from c0 c4 sp have sp0: "is_space c0" and sp4: "is_space c4"
    by (metis lower_char_space)+
  from sw' w obtain x xs where sw_cons: "sw = x # xs" and x: "\<not> is_space x"
    by (cases sw) (auto simp: lower_char_space)
  have len: "length sw = length w" using sw' by auto
  have d: "dropWhile is_space s = sw @ c4 # st"
    unfolding s using sp0 sw_cons x by simp
  have t: "takeWhile is_space s \<noteq> []"
    unfolding s using sp0 by simp
  have "match_ws_word w s = Some (dropWhile is_space (c4 # st))"
    unfolding match_ws_word_def Let_def d using t len sw' sp4
    by (simp add: lower_def)
  then show ?thesis by simp
qed

lemma re_split_go_shorter:
  "isin ('' '' @ w @ '' '') (lower s) \<Longrightarrow> w \<noteq> [] \<Longrightarrow> \<not> is_space (hd w)
     \<Longrightarrow> p \<in> set (re_split_go w piece s)
     \<Longrightarrow> length p < length piece + length s"
proof (induction w piece s rule: re_split_go.induct)
  case (1 w piece)
  then show ?case by (simp add: lower_def)
next
  case (2 w piece c cs)
  show ?case
  proof (cases "match_ws_word w (c # cs)")
    case None
    with match_ws_word_at [of "c # cs" w] "2.prems"
    have "\<not> startswith (lower (c # cs)) ('' '' @ w @ '' '')"
      by blast
    with "2.prems"(1) have "isin ('' '' @ w @ '' '') (lower cs)"
      by (simp add: lower_def)
    from "2.IH"(1) [OF None this "2.prems"(2,3)] "2.prems"(4) None
    show ?thesis by simp
  next
    case (Some rest)
    from "2.prems"(4) Some have "p = piece \<or> p \<in> set (re_split_go w [] rest)"
      by simp
    then show ?thesis
    proof
      assume "p = piece"
      then show ?thesis by simp
    next
      assume "p \<in> set (re_split_go w [] rest)"
      from re_split_go_length [OF this] match_ws_word_shorter [OF Some]
      show ?thesis by simp
    qed
  qed
qed

lemma re_split_shorter:
  assumes "isin ('' '' @ w @ '' '') (lower s)" and "w \<noteq> []" and "\<not> is_space (hd w)"
    and "p \<in> set (re_split w s)"
  shows "length (strip p) < length s"
proof -
  from re_split_go_shorter [OF assms(1,2,3)] assms(4) have "length p < length s"
    unfolding re_split_def by fastforce
  with strip_length [of p] show ?thesis by simp
qed

function translate_condition :: "string \<Rightarrow> dict \<Rightarrow> string option" where
  "translate_condition xpath context =
     (case condition_loop operators xpath of
        None \<Rightarrow> None
      | Some (Some d) \<Rightarrow> Some d
      | Some None \<Rightarrow>
          if isin '' and '' (lower xpath) then
            do {
              translated \<leftarrow>
                those (map (\<lambda>c. translate_condition (strip c) context) (re_split ''and'' xpath));
              Some (join '' AND '' translated)
            }
          else if isin '' or '' (lower xpath) then
            do {
              translated \<leftarrow>
                those (map (\<lambda>c. translate_condition (strip c) context) (re_split ''or'' xpath));
              Some (join '' OR '' translated)
            }
          else Some (''Evaluate condition: '' @ xpath))"
  by pat_completeness auto
termination
proof (relation "measure (\<lambda>(xpath, context). length xpath)")
  show "wf (measure (\<lambda>(xpath, context). length xpath))" by simp
next
  fix xpath :: string and ctx :: dict and c :: string
  assume "isin '' and '' (lower xpath)" and "c \<in> set (re_split ''and'' xpath)"
  then have "length (strip c) < length xpath"
    using re_split_shorter [of "''and''" xpath c] by (simp add: is_space_def)
  then show "((strip c, ctx), (xpath, ctx))
               \<in> measure (\<lambda>(xpath, context). length xpath)"
    by simp
next
  fix xpath :: string and ctx :: dict and c :: string
  assume "isin '' or '' (lower xpath)" and "c \<in> set (re_split ''or'' xpath)"
  then have "length (strip c) < length xpath"
    using re_split_shorter [of "''or''" xpath c] by (simp add: is_space_def)
  then show "((strip c, ctx), (xpath, ctx))
               \<in> measure (\<lambda>(xpath, context). length xpath)"
    by simp
qed

declare translate_condition.simps [simp del]

text \<open>
  The loop of \<^verbatim>\<open>_translate_function\<close> over the function table, with the same three
  outcomes as \<open>condition_loop\<close>; \<open>render_call\<close> is what the loop does once the pattern
  has matched. For \<^verbatim>\<open>contains\<close> and \<^verbatim>\<open>starts-with\<close> with other than two arguments no
  branch returns, and the loop goes on with the next table entry.
\<close>

definition render_call :: "string \<Rightarrow> string \<Rightarrow> string \<Rightarrow> string option option" where
  "render_call func_name func_desc args =
     (case humanize_name args of
        None \<Rightarrow> None
      | Some arg_desc \<Rightarrow>
          if func_name \<in> set [''count'', ''sum'', ''string-length''] then
            Some (Some (capitalize func_desc @ '' '' @ arg_desc))
          else if func_name = ''concat'' then
            (let arg_parts = map (\<lambda>a. strip_chars quote_chars (strip a))
                                 (split '','' None args)
             in Some (Some (''Combine: '' @ join '' + '' arg_parts)))
          else if func_name = ''substring'' then
            Some (Some (''Extract part of '' @ arg_desc))
          else if func_name \<in> set [''contains'', ''starts-with''] then
            (case map (\<lambda>a. strip_chars quote_chars (strip a))
                      (split '','' (Some 1) args) of
               [a0, a1] \<Rightarrow>
                 Some (Some (''Check if '' @ a0 @ '' '' @ func_desc @ '' ''
                             @ [CHR 0x27] @ a1 @ [CHR 0x27]))
             | _ \<Rightarrow> Some None)
          else Some (Some (capitalize func_desc @ '' '' @ arg_desc)))"

fun function_loop :: "(string \<times> string) list \<Rightarrow> string \<Rightarrow> string option option" where
  "function_loop [] xpath = Some None"
| "function_loop ((func_name, func_desc) # funcs) xpath =
     (case re_search_call func_name xpath of
        None \<Rightarrow> function_loop funcs xpath
      | Some args \<Rightarrow>
          (case render_call func_name func_desc args of
             None \<Rightarrow> None
           | Some None \<Rightarrow> function_loop funcs xpath
           | Some (Some d) \<Rightarrow> Some (Some d)))"

definition translate_function :: "string \<Rightarrow> dict \<Rightarrow> string option" where
  "translate_function xpath context =
     (case function_loop functions_table xpath of
        None \<Rightarrow> None
      | Some (Some d) \<Rightarrow> Some d
      | Some None \<Rightarrow> Some (''Apply function: '' @ xpath))"

definition translate_variable :: "string \<Rightarrow> dict \<Rightarrow> string option" where
  "translate_variable xpath context =
     (let var_name = lstrip_chars ''$'' xpath in
      if isin ''/'' var_name then
        (let parts = split ''/'' None var_name in
         do {
           var_base \<leftarrow> py_index parts 0;
           humanized \<leftarrow> those (map humanize_name (drop 1 parts));
           Some (''Get '' @ join arrow humanized @ '' from variable ''
                 @ [CHR 0x27] @ var_base @ [CHR 0x27])
         })
      else Some (''Use the value of variable '' @ [CHR 0x27] @ var_name @ [CHR 0x27]))"

definition translate_generic :: "string \<Rightarrow> dict \<Rightarrow> string option" where
  "translate_generic xpath context =
     do {
       h \<leftarrow> humanize_name xpath;
       Some (''XPath expression: '' @ h)
     }"

definition translate_predicate :: "string \<Rightarrow> string option" where
  "translate_predicate predicate =
     (if isdigit predicate then Some (''position '' @ predicate)
      else if predicate = ''last()'' then Some ''the last item''
      else if list_ex (\<lambda>op. isin op predicate) (map fst operators)
        then translate_condition predicate Mapping.empty
      else Some predicate)"

text \<open>The body of the loop over the path parts in \<^verbatim>\<open>_translate_selection\<close>.\<close>

definition readable_part :: "string \<Rightarrow> string option" where
  "readable_part part =
     (if isin ''['' part then
        do {
          (base, predicate0) \<leftarrow> unpack2 (split ''['' (Some 1) part);
          let predicate = rstrip_chars '']'' predicate0;
          h \<leftarrow> humanize_name base;
          t \<leftarrow> translate_predicate predicate;
          Some (h @ '' where '' @ t)
        }
      else if startswith part ''@'' then
        do {
          h \<leftarrow> humanize_name (drop 1 part);
          Some (''the '' @ h @ '' attribute'')
        }
      else if part = ''text()'' then Some ''the text content''
      else humanize_name part)"

definition translate_selection :: "string \<Rightarrow> dict \<Rightarrow> string option" where
  "translate_selection xpath context =
     (let path = lstrip_chars ''/'' xpath;
          parts = filter (\<lambda>p. p \<noteq> []) (split ''/'' None path)
      in if parts = [] then Some ''Select the root element''
         else
           do {
             readable_parts \<leftarrow> those (map readable_part parts);
             (if length readable_parts = 1 then
                do {
                  r \<leftarrow> py_index readable_parts 0;
                  Some (''Select '' @ r)
                }
              else Some (''Navigate to: '' @ join arrow readable_parts))
           })"

text \<open>The body of the loop over the numbered parts in \<^verbatim>\<open>_generate_steps\<close>.\<close>

definition step :: "nat \<times> string \<Rightarrow> string option" where
  "step ip =
     (case ip of (i, part) \<Rightarrow>
        if startswith part ''@'' then
          do {
            h \<leftarrow> humanize_name (drop 1 part);
            Some (''Step '' @ str_nat i @ '': Access the '' @ h @ '' attribute'')
          }
        else if isin ''['' part then
          do {
            base \<leftarrow> py_index (split ''['' None part) 0;
            h \<leftarrow> humanize_name base;
            Some (''Step '' @ str_nat i @ '': Select '' @ h @ '' with specific criteria'')
          }
        else
          do {
            h \<leftarrow> humanize_name part;
            Some (''Step '' @ str_nat i @ '': Navigate to '' @ h)
          })"

definition enumerate1 :: "'a list \<Rightarrow> (nat \<times> 'a) list" where
  "enumerate1 xs = zip [1 ..< Suc (length xs)] xs"

definition generate_steps :: "string \<Rightarrow> dict \<Rightarrow> string list option" where
  "generate_steps xpath context =
     (if isin ''/'' xpath \<and> \<not> startswith xpath ''$'' then
        (let parts = filter (\<lambda>p. p \<noteq> []) (split ''/'' None xpath)
         in those (map step (enumerate1 parts)))
      else Some [])"

definition calculate_confidence :: "string \<Rightarrow> string" where
  "calculate_confidence xpath =
     (if count CHR ''/'' xpath \<le> 2 \<and> \<not> isin ''['' xpath \<and>
         \<not> list_ex (\<lambda>op. isin op xpath) (map fst operators)
        then ''high''
      else if count CHR ''['' xpath > 2 \<or> count CHR ''('' xpath > 3 then ''low''
      else ''medium'')"

record data_flow =
  source :: pyval
  target :: pyval
  operation :: string

definition extract_data_flow :: "string \<Rightarrow> dict \<Rightarrow> data_flow" where
  "extract_data_flow xpath context =
     \<lparr> source = dict_get context ''source'' (PyStr ''Unknown''),
       target = dict_get context ''target'' (PyStr ''Unknown''),
       operation = determine_type xpath \<rparr>"

text \<open>
  The result of \<^verbatim>\<open>translate\<close>. Python passes the context by reference: the caller's
  dicts live in a heap, a list of dicts addressed by position, and \<^verbatim>\<open>translate\<close>
  gets the heap and the address of the context, or \<^term>\<open>None\<close> for an absent one
  (the default argument). \<^verbatim>\<open>context = context or {}\<close> keeps a non-empty dict and puts a
  new empty dict on the heap otherwise. An address outside the heap is no Python object:
  there the model yields \<^term>\<open>None\<close>. The function returns its result and the heap it
  leaves.
\<close>

record translation =
  description :: string
  steps :: "string list"
  confidence :: string
  type :: string
  data_flow :: data_flow

type_synonym heap = "dict list"

definition context_or_new :: "heap \<Rightarrow> nat option \<Rightarrow> (nat \<times> heap) option" where
  "context_or_new h context =
     (case context of
        None \<Rightarrow> Some (length h, h @ [Mapping.empty])
      | Some a \<Rightarrow>
          (case py_index h a of
             None \<Rightarrow> None
           | Some d \<Rightarrow>
               if Mapping.is_empty d then Some (length h, h @ [Mapping.empty])
               else Some (a, h)))"

definition translate_body :: "string \<Rightarrow> dict \<Rightarrow> translation option" where
  "translate_body xpath0 context =
     (let xpath = strip xpath0;
          expr_type = determine_type xpath
      in do {
           description \<leftarrow>
             (if expr_type = ''selection'' then translate_selection xpath context
              else if expr_type = ''condition'' then translate_condition xpath context
              else if expr_type = ''function'' then translate_function xpath context
              else if expr_type = ''variable'' then translate_variable xpath context
              else translate_generic xpath context);
           steps \<leftarrow> generate_steps xpath context;
           let confidence = calculate_confidence xpath;
           Some \<lparr> description = description, steps = steps, confidence = confidence,
                  type = expr_type, data_flow = extract_data_flow xpath context \<rparr>
         })"

definition translate :: "heap \<Rightarrow> string \<Rightarrow> nat option \<Rightarrow> translation option \<times> heap" where
  "translate h xpath context =
     (case context_or_new h context of
        None \<Rightarrow> (None, h)
      | Some (a, h') \<Rightarrow>
          (case py_index h' a of
             None \<Rightarrow> (None, h')
           | Some d \<Rightarrow> (translate_body xpath d, h')))"

text \<open>
  A context argument of \<^verbatim>\<open>translate\<close> is absent or an object of the heap.
\<close>

definition valid_context :: "heap \<Rightarrow> nat option \<Rightarrow> bool" where
  "valid_context h context = (case context of None \<Rightarrow> True | Some a \<Rightarrow> a < length h)"

section \<open>Example inputs\<close>



section \<open>Properties: name humanization\<close>

text \<open>
  C8: humanizing \<^verbatim>\<open>OrderId\<close> gives \<^verbatim>\<open>order id\<close>, \<^verbatim>\<open>order_total\<close> gives
  \<^verbatim>\<open>order total\<close>, \<^verbatim>\<open>ns:Element-Name\<close> gives \<^verbatim>\<open>element name\<close>, and the empty name
  gives \<^verbatim>\<open>unknown\<close>; none of the four calls raises.
\<close>

theorem humanize_name_examples:
  "humanize_name ''OrderId'' = Some ''order id'' \<and>
   humanize_name ''order_total'' = Some ''order total'' \<and>
   humanize_name ''ns:Element-Name'' = Some ''element name'' \<and>
   humanize_name [] = Some ''unknown''"
  by code_simp

section \<open>Properties: worked translations\<close>

text \<open>
  C1, as stated, fails: for \<^verbatim>\<open>$orderData/Order/TotalAmount > 1000\<close> with the context
  \<^verbatim>\<open>{type: "condition"}\<close>, \<^verbatim>\<open>translate\<close> does not classify the expression as a
  condition, and its description is not the one the condition renderer gives.
\<close>

theorem translate_order_total_not_condition:
  "map_option type
     (fst (translate [Mapping.update ''type'' (PyStr ''condition'') Mapping.empty]
             ''$orderData/Order/TotalAmount > 1000'' (Some 0)))
     \<noteq> Some ''condition'' \<and>
   map_option description
     (fst (translate [Mapping.update ''type'' (PyStr ''condition'') Mapping.empty]
             ''$orderData/Order/TotalAmount > 1000'' (Some 0)))
     \<noteq> translate_condition ''$orderData/Order/TotalAmount > 1000''
          (Mapping.update ''type'' (PyStr ''condition'') Mapping.empty)"
  by code_simp

text \<open>
  C1, amended: for that expression and context, \<^verbatim>\<open>translate\<close> classifies the expression
  as \<^verbatim>\<open>variable\<close>, because it starts with \<^verbatim>\<open>$\<close> (the type in the context is not
  consulted), and describes it by the variable rule, the path parts humanized and joined
  by arrows. The condition renderer, applied to the expression itself, splits it at the
  first \<^verbatim>\<open>>\<close>, renders the left operand by the variable operand rule and the right
  operand as the literal 1000, with the phrase \<^verbatim>\<open>is greater than\<close>.
\<close>

theorem translate_order_total:
  "fst (translate [Mapping.update ''type'' (PyStr ''condition'') Mapping.empty]
          ''$orderData/Order/TotalAmount > 1000'' (Some 0)) =
     Some \<lparr> description =
              ''Get order'' @ arrow @ ''total amount > 1000 from variable ''
                @ [CHR 0x27] @ ''orderData'' @ [CHR 0x27],
            steps = [],
            confidence = ''medium'',
            type = ''variable'',
            data_flow = \<lparr> source = PyStr ''Unknown'', target = PyStr ''Unknown'',
                          operation = ''variable'' \<rparr> \<rparr> \<and>
   translate_condition ''$orderData/Order/TotalAmount > 1000''
       (Mapping.update ''type'' (PyStr ''condition'') Mapping.empty) =
     Some ''Check if variable orderData/Order/TotalAmount is greater than 1000''"
  by code_simp

text \<open>
  C5, as stated, fails: the description of \<^verbatim>\<open>count(//Items/Item)\<close> is not
  \<^verbatim>\<open>Count the number of items item\<close>.
\<close>

theorem translate_count_items_not_humanized_path:
  "map_option description (fst (translate [] ''count(//Items/Item)'' None))
     \<noteq> Some ''Count the number of items item''"
  by code_simp

text \<open>
  C5, amended: \<^verbatim>\<open>translate("count(//Items/Item)")\<close> classifies the expression as
  \<^verbatim>\<open>function\<close>, matches \<^verbatim>\<open>count(\<close>, and returns the description
  \<^verbatim>\<open>Count the number of //items/item\<close>: humanization lower-cases the argument and keeps
  its slashes. The confidence is \<^verbatim>\<open>medium\<close>.
\<close>

theorem translate_count_items:
  "map_option type (fst (translate [] ''count(//Items/Item)'' None)) = Some ''function'' \<and>
   re_search_call ''count'' ''count(//Items/Item)'' = Some ''//Items/Item'' \<and>
   map_option description (fst (translate [] ''count(//Items/Item)'' None))
     = Some ''Count the number of //items/item'' \<and>
   map_option confidence (fst (translate [] ''count(//Items/Item)'' None)) = Some ''medium''"
  by code_simp

text \<open>
  C3, on the input \<^verbatim>\<open>active and valid\<close>: the expression is classified as a condition and
  holds no comparison operator. The loop over the operator table, which also lists
  \<^verbatim>\<open>and\<close>, \<^verbatim>\<open>or\<close> and \<^verbatim>\<open>not\<close>, finds \<^verbatim>\<open>and\<close> and returns a single
  \<^verbatim>\<open>Check if ...\<close> sentence, so the branch that splits at \<^verbatim>\<open>and\<close> is not reached. That
  branch would have joined the translations of the two sub-conditions with \<^verbatim>\<open>AND\<close>.
\<close>

theorem translate_condition_and_shadowed:
  "determine_type ''active and valid'' = ''condition'' \<and>
   translate_condition ''active and valid'' Mapping.empty = Some ''Check if active AND valid'' \<and>
   map_option description (fst (translate [] ''active and valid'' None))
     = Some ''Check if active AND valid'' \<and>
   map_option (join '' AND '')
     (those (map (\<lambda>c. translate_condition (strip c) Mapping.empty)
               (re_split ''and'' ''active and valid'')))
     = Some ''Evaluate condition: active AND Evaluate condition: valid''"
  by code_simp

section \<open>Properties: confidence\<close>

text \<open>
  C7: the confidence of an expression is \<^verbatim>\<open>high\<close> exactly when it has at most two
  slashes, no opening bracket and no token of the operator table; otherwise it is
  \<^verbatim>\<open>low\<close> exactly when it has more than two opening brackets or more than three opening
  parentheses; otherwise it is \<^verbatim>\<open>medium\<close>. So every expression gets exactly one of the
  three labels.
\<close>

theorem calculate_confidence_bands:
  "(let simple = (count CHR ''/'' xpath \<le> 2 \<and> \<not> isin ''['' xpath \<and>
                  \<not> list_ex (\<lambda>op. isin op xpath)
                       [''='', ''!='', ''>'', ''>='', ''<'', ''<='', ''and'', ''or'', ''not'']);
        nested = (2 < count CHR ''['' xpath \<or> 3 < count CHR ''('' xpath)
    in (calculate_confidence xpath = ''high'') = simple \<and>
       (calculate_confidence xpath = ''low'') = (\<not> simple \<and> nested) \<and>
       (calculate_confidence xpath = ''medium'') = (\<not> simple \<and> \<not> nested) \<and>
       calculate_confidence xpath \<in> {''high'', ''medium'', ''low''})"
  unfolding Let_def calculate_confidence_def operators_def
  by simp

section \<open>Properties: translation never fails\<close>




























section \<open>Properties: steps\<close>

lemma translate_body_fields:
  assumes "translate_body xpath ctx = Some r"
  shows "generate_steps (strip xpath) ctx = Some (steps r)"
    and "type r = determine_type (strip xpath)"
    and "data_flow r = extract_data_flow (strip xpath) ctx"
  using assms
  unfolding translate_body_def Let_def
  by (auto simp: bind_eq_Some_conv)

lemma translate_result_body:
  assumes "fst (translate h xpath context) = Some r"
  shows "\<exists>ctx. translate_body xpath ctx = Some r \<and>
           (case context of
              None \<Rightarrow> ctx = Mapping.empty
            | Some a \<Rightarrow> a < length h \<and>
                (if Mapping.is_empty (h ! a) then ctx = Mapping.empty else ctx = h ! a))"
  using assms
  by (cases "context")
     (auto simp: translate_def context_or_new_def py_index_def nth_append
           split: option.splits if_splits)





section \<open>Properties: the context is left as it was\<close>

lemma dict_get_is_empty:
  assumes "Mapping.is_empty d"
  shows "dict_get d k dflt = dict_get Mapping.empty k dflt"
proof -
  from assms have "k \<notin> Mapping.keys d"
    by (simp add: Mapping.is_empty_def)
  then have "Mapping.lookup d k = None"
    by (simp add: keys_is_none_rep Option.is_none_def)
  then show ?thesis
    by (simp add: dict_get_def)
qed

text \<open>
  C10: after \<^verbatim>\<open>translate\<close> returns, every dict that was on the heap, the context
  among them, has the keys and values it had before; the call only adds a new empty
  dict when the context is absent or empty. The source and target of the result's data
  flow are the context's values under these keys, and \<^verbatim>\<open>Unknown\<close> for a key that is
  missing.
\<close>

theorem translate_keeps_context:
  assumes "valid_context h context" and "fst (translate h xpath context) = Some r"
  shows "take (length h) (snd (translate h xpath context)) = h \<and>
         (case context of
            None \<Rightarrow> source (data_flow r) = PyStr ''Unknown'' \<and>
                    target (data_flow r) = PyStr ''Unknown''
          | Some a \<Rightarrow>
              snd (translate h xpath context) ! a = h ! a \<and>
              source (data_flow r) = dict_get (h ! a) ''source'' (PyStr ''Unknown'') \<and>
              target (data_flow r) = dict_get (h ! a) ''target'' (PyStr ''Unknown''))"
proof -
  have heap: "take (length h) (snd (translate h xpath context)) = h"
    using assms(1)
    by (auto simp: translate_def valid_context_def context_or_new_def py_index_def
             split: option.splits)
  from translate_result_body [OF assms(2)] obtain ctx where
    body: "translate_body xpath ctx = Some r" and
    ctx: "case context of
            None \<Rightarrow> ctx = Mapping.empty
          | Some a \<Rightarrow> a < length h \<and>
              (if Mapping.is_empty (h ! a) then ctx = Mapping.empty else ctx = h ! a)"
    by blast
  have df: "data_flow r = extract_data_flow (strip xpath) ctx"
    by (rule translate_body_fields(3) [OF body])
  show ?thesis
  proof (cases "context")
    case None
    with ctx df heap show ?thesis
      by (simp add: extract_data_flow_def dict_get_def)
  next
    case (Some a)
    with ctx have a: "a < length h" by simp
    from heap have "take (length h) (snd (translate h xpath context)) ! a = h ! a"
      by simp
    with a have same: "snd (translate h xpath context) ! a = h ! a"
      by simp
    have "dict_get ctx k d = dict_get (h ! a) k d" for k d
    proof (cases "Mapping.is_empty (h ! a)")
      case True
      with Some ctx have "ctx = Mapping.empty" by simp
      with dict_get_is_empty [OF True] show ?thesis by simp
    next
      case False
      with Some ctx show ?thesis by simp
    qed
    with Some df heap same show ?thesis
      by (simp add: extract_data_flow_def)
  qed
qed

theorem translate_keeps_context_witness:
  "valid_context [Mapping.update ''source'' (PyStr ''orders.xsd'') Mapping.empty] (Some 0) \<and>
   fst (translate [Mapping.update ''source'' (PyStr ''orders.xsd'') Mapping.empty]
          ''//Order'' (Some 0)) =
     Some \<lparr> description = ''Select order'', steps = [''Step 1: Navigate to order''],
            confidence = ''high'', type = ''selection'',
            data_flow = \<lparr> source = PyStr ''orders.xsd'', target = PyStr ''Unknown'',
                          operation = ''selection'' \<rparr> \<rparr> \<and>
   snd (translate [Mapping.update ''source'' (PyStr ''orders.xsd'') Mapping.empty]
          ''//Order'' (Some 0)) ! 0
     = Mapping.update ''source'' (PyStr ''orders.xsd'') Mapping.empty"
proof -
  let ?h = "[Mapping.update ''source'' (PyStr ''orders.xsd'') Mapping.empty]"
  let ?r = "\<lparr> description = ''Select order'', steps = [''Step 1: Navigate to order''],
            confidence = ''high'', type = ''selection'',
            data_flow = \<lparr> source = PyStr ''orders.xsd'', target = PyStr ''Unknown'',
                          operation = ''selection'' \<rparr> \<rparr>"
  have v: "valid_context ?h (Some 0)"
    by (simp add: valid_context_def)
  have r: "fst (translate ?h ''//Order'' (Some 0)) = Some ?r"
    by code_simp
  from translate_keeps_context [OF v r]
  have "snd (translate ?h ''//Order'' (Some 0)) ! 0 = ?h ! 0"
    by simp
  then have "snd (translate ?h ''//Order'' (Some 0)) ! 0
               = Mapping.update ''source'' (PyStr ''orders.xsd'') Mapping.empty"
    by simp
  with v r show ?thesis by (intro conjI)
qed

section \<open>Properties: extraction\<close>











end
